theory Spec2Isabelle
  imports Main "HOL-Library.AList"
begin

section \<open>Python strings\<close>

text \<open>
  A Python \<open>str\<close> is modelled as a \<open>string\<close> (a list of characters). The
  catalog's file names, platform tokens and the alias tables are ASCII, and on ASCII
  \<open>str.lower\<close> maps \<open>A..Z\<close> to \<open>a..z\<close> and leaves every other character alone.
\<close>

definition lower_char :: "char \<Rightarrow> char" where
  "lower_char c =
     (case map_of (zip ''ABCDEFGHIJKLMNOPQRSTUVWXYZ'' ''abcdefghijklmnopqrstuvwxyz'') c of
        None \<Rightarrow> c
      | Some l \<Rightarrow> l)"

definition lower :: "string \<Rightarrow> string" where
  "lower s = map lower_char s"

text \<open>\<open>s.startswith(p)\<close>, \<open>s.endswith(p)\<close> and the substring test \<open>sub in s\<close>.\<close>

fun startswith :: "string \<Rightarrow> string \<Rightarrow> bool" where
  "startswith s [] = True"
| "startswith [] (p # ps) = False"
| "startswith (x # xs) (p # ps) = (x = p \<and> startswith xs ps)"

definition endswith :: "string \<Rightarrow> string \<Rightarrow> bool" where
  "endswith s p = startswith (rev s) (rev p)"

fun contains :: "string \<Rightarrow> string \<Rightarrow> bool" where
  "contains sub [] = startswith [] sub"
| "contains sub (x # xs) = (startswith (x # xs) sub \<or> contains sub xs)"

section \<open>Identity equivalence\<close>

subsection \<open>Architectures\<close>

text \<open>
  The dictionary \<open>equivalences\<close> of \<open>is_equivalent_architecture\<close>, in insertion order
  (the order in which \<open>items()\<close> yields it).
\<close>

definition arch_equivalences :: "(string \<times> string list) list" where
  "arch_equivalences =
     [(''x86_64'', [''amd64'', ''x86-64'']),
      (''armv7l'', [''arm'']),
      (''aarch64'', [''arm64''])]"

text \<open>
  The \<open>for\<close> loop over the groups: it returns \<open>True\<close> at the first group in which one
  argument is the base name and the other one of its aliases; when the groups are
  exhausted the result is the comparison of the two lower-cased names.
\<close>

fun arch_loop :: "(string \<times> string list) list \<Rightarrow> string \<Rightarrow> string \<Rightarrow> bool" where
  "arch_loop [] arch1_lower arch2_lower = (arch1_lower = arch2_lower)"
| "arch_loop ((base_arch, aliases) # rest) arch1_lower arch2_lower =
     (if arch1_lower = base_arch \<and> arch2_lower \<in> set aliases then True
      else if arch2_lower = base_arch \<and> arch1_lower \<in> set aliases then True
      else arch_loop rest arch1_lower arch2_lower)"

definition is_equivalent_architecture :: "string \<Rightarrow> string \<Rightarrow> bool" where
  "is_equivalent_architecture arch1 arch2 =
     arch_loop arch_equivalences (lower arch1) (lower arch2)"

subsection \<open>Distributions\<close>

text \<open>
  The dictionary \<open>equivalences\<close> of \<open>is_equivalent_distro\<close>, in insertion order, with
  the aliases written exactly as the source writes them (two of them, \<open>openEuler\<close> and
  \<open>steamOS\<close>, carry an upper-case letter).
\<close>

definition el_aliases :: "string list" where
  "el_aliases =
     [''redhat'', ''rhel'', ''fedora'', ''centos'', ''scientific'', ''slc'',
      ''ascendos'', ''cloudlinux'', ''psbm'', ''oraclelinux'', ''ovs'',
      ''oel'', ''virtuozzo'', ''xenserver'', ''alibaba'',
      ''euleros'', ''openEuler'', ''almalinux'', ''rocky'', ''tencentos'',
      ''eurolinux'', ''kylin linux advanced server'', ''miracle'', ''el'']"

definition amzn_aliases :: "string list" where
  "amzn_aliases = [''amazon'', ''amzn'']"

definition ubuntu_aliases :: "string list" where
  "ubuntu_aliases =
     [''ubuntu'', ''raspbian'', ''neon'', ''kde neon'',
      ''linux mint'', ''steamOS'', ''cumulus linux'',
      ''pop!_os'', ''parrot'', ''pardus gnu/linux'', ''uos'', ''deepin'', ''osmc'']"

definition debian_aliases :: "string list" where
  "debian_aliases = [''debian'', ''devuan'', ''kali'']"

definition suse_aliases :: "string list" where
  "suse_aliases =
     [''suse'', ''sles'', ''sled'', ''opensuse'', ''opensuse tumbleweed'',
      ''sles_sap'', ''suse_linux'', ''opensuse leap'', ''alp-dolomite'']"

definition distro_equivalences :: "(string \<times> string list) list" where
  "distro_equivalences =
     [(''el'', el_aliases),
      (''amzn'', amzn_aliases),
      (''ubuntu'', ubuntu_aliases),
      (''debian'', debian_aliases),
      (''suse'', suse_aliases)]"

text \<open>
  The \<open>for\<close> loop over the groups. A group whose alias list holds the reported name and
  whose key is a prefix of the candidate token decides the result: for a token that
  starts with \<open>el\<close> the result is whether \<open>major_version\<close> occurs in the token,
  otherwise it is \<open>True\<close>. Any other group is passed over; when the groups are exhausted
  the result is \<open>False\<close>.
\<close>

fun distro_loop ::
  "(string \<times> string list) list \<Rightarrow> string \<Rightarrow> string \<Rightarrow> string \<Rightarrow> bool" where
  "distro_loop [] distro1_lower major_version distro2_lower = False"
| "distro_loop ((group_key, aliases) # rest) distro1_lower major_version distro2_lower =
     (if distro1_lower \<in> set aliases then
        (if startswith distro2_lower group_key then
           (if startswith distro2_lower ''el'' then
              (if contains major_version distro2_lower then True else False)
            else True)
         else distro_loop rest distro1_lower major_version distro2_lower)
      else distro_loop rest distro1_lower major_version distro2_lower)"

definition is_equivalent_distro :: "string \<Rightarrow> string \<Rightarrow> string \<Rightarrow> bool" where
  "is_equivalent_distro distro1 major_version distro2 =
     distro_loop distro_equivalences (lower distro1) major_version (lower distro2)"

section \<open>Errors\<close>

text \<open>
  The exceptions the modelled code can raise. \<open>ValueError\<close> is raised by
  \<open>get_download_for\<close> only; its arguments are the values interpolated into its
  message: the four query strings and \<open>list_all_os_and_arch_options\<close>.
\<close>

datatype py_error =
    TypeError
  | AttributeError
  | KeyError
  | IndexError
  | ValueError string string string string "(string option \<times> string option) list"

section \<open>The regular expressions of the metadata extractor\<close>

text \<open>
  The pattern searched in a file name is a sequence of literal characters and of greedy
  repetitions of a character class, closed by \<open>$\<close>. Each item carries the name of the
  capture group it lies in (the empty name outside a group).
\<close>

datatype cls = Digit | NotChar char

fun in_cls :: "cls \<Rightarrow> char \<Rightarrow> bool" where
  "in_cls Digit c = (c \<in> set ''0123456789'')"
| "in_cls (NotChar x) c = (c \<noteq> x)"

datatype atom = Lit char | Many cls nat | Eos

primrec first_some :: "(nat \<Rightarrow> 'a option) \<Rightarrow> nat list \<Rightarrow> 'a option" where
  "first_some f [] = None"
| "first_some f (n # ns) = (case f n of None \<Rightarrow> first_some f ns | Some r \<Rightarrow> Some r)"

text \<open>
  Matching at the head of \<open>s\<close>, by backtracking. \<open>Many k lo\<close> (\<open>k+\<close> for \<open>lo = 1\<close>,
  \<open>k*\<close> for \<open>lo = 0\<close>) first takes the longest run of characters of the class and gives
  them back one at a time, down to \<open>lo\<close>, until the rest of the pattern matches.
  \<open>Eos\<close> is \<open>$\<close>: the end of the string, or the position before a final newline.
  The result lists, for every item, its group and the text it matched.
\<close>

primrec re_match :: "(string \<times> atom) list \<Rightarrow> string \<Rightarrow> (string \<times> string) list option" where
  "re_match [] s = Some []"
| "re_match (ga # rest) s =
     (case snd ga of
        Lit c \<Rightarrow>
          (case s of
             [] \<Rightarrow> None
           | x # xs \<Rightarrow>
               if x = c then map_option ((#) (fst ga, [x])) (re_match rest xs) else None)
      | Many k lo \<Rightarrow>
          first_some
            (\<lambda>n. map_option ((#) (fst ga, take n s)) (re_match rest (drop n s)))
            (rev [lo ..< Suc (length (takeWhile (in_cls k) s))])
      | Eos \<Rightarrow>
          if s = [] \<or> s = [CHR 0x0A]
          then map_option ((#) (fst ga, [])) (re_match rest s) else None)"

text \<open>\<open>re.search\<close>: the match at the leftmost position of \<open>s\<close> that has one.\<close>

definition re_search :: "(string \<times> atom) list \<Rightarrow> string \<Rightarrow> (string \<times> string) list option" where
  "re_search pat s = first_some (\<lambda>i. re_match pat (drop i s)) [0 ..< Suc (length s)]"

text \<open>\<open>matches.group(g)\<close>: the text matched by the items of group \<open>g\<close>.\<close>

definition group_text :: "string \<Rightarrow> (string \<times> string) list \<Rightarrow> string" where
  "group_text g m = concat (map snd (filter (\<lambda>p. fst p = g) m))"

text \<open>
  \<^verbatim>\<open>(?P<version>\d+\.\d+\.\d+)-(?:(?P<os>[^-]+\d*))\.(?P<ext>[^.]+)$\<close>
\<close>

definition name_pattern :: "(string \<times> atom) list" where
  "name_pattern =
     [(''version'', Many Digit 1), (''version'', Lit CHR ''.''),
      (''version'', Many Digit 1), (''version'', Lit CHR ''.''),
      (''version'', Many Digit 1),
      ([], Lit CHR ''-''),
      (''os'', Many (NotChar CHR ''-'') 1), (''os'', Many Digit 0),
      ([], Lit CHR ''.''),
      (''ext'', Many (NotChar CHR ''.'') 1),
      ([], Eos)]"

text \<open>
  \<^verbatim>\<open>re.split(r"(?<!\.)\.(?!\.)|(?<!_)_(?!_)", s, maxsplit=1)\<close>: the pattern matches one
  character, a \<open>.\<close> or a \<open>_\<close> that is neither preceded nor followed by the same
  character; the string is cut at the leftmost such position, if there is one.
\<close>

definition is_sep :: "string \<Rightarrow> nat \<Rightarrow> bool" where
  "is_sep s i =
     (i < length s \<and> (s ! i = CHR ''.'' \<or> s ! i = CHR ''_'') \<and>
      (i = 0 \<or> s ! (i - 1) \<noteq> s ! i) \<and>
      (Suc i = length s \<or> s ! Suc i \<noteq> s ! i))"

definition re_split1 :: "string \<Rightarrow> string list" where
  "re_split1 s =
     (case find (is_sep s) [0 ..< length s] of
        None \<Rightarrow> [s]
      | Some i \<Rightarrow> [take i s, drop (Suc i) s])"

section \<open>Artifact metadata\<close>

text \<open>
  \<open>TenableInfoMetadata\<close>. Every attribute holds what the catalog's JSON gave for it:
  a string, or \<open>None\<close> for a JSON \<open>null\<close>.
\<close>

record TenableInfoMetadata =
  os :: "string option"
  md5 :: "string option"
  arch :: "string option"
  sha256 :: "string option"
  os_type :: "string option"
  product :: "string option"
  version :: "string option"
  product_type :: "string option"
  release_date :: "string option"
  product_notes :: "string option"
  product_release_date :: "string option"

text \<open>
  The constructor is called as \<open>TenableInfoMetadata(**meta_data)\<close> on the dictionary of
  the catalog entry, given here by its items. A key that is no parameter of the
  constructor raises \<open>TypeError\<close>; a parameter whose key is absent takes its default,
  the empty string (and not \<open>None\<close>).
\<close>

definition metadata_params :: "string list" where
  "metadata_params =
     [''os'', ''md5'', ''arch'', ''sha256'', ''os_type'', ''product'', ''version'',
      ''product_type'', ''release_date'', ''product_notes'', ''product_release_date'']"

definition kwarg :: "(string \<times> string option) list \<Rightarrow> string \<Rightarrow> string option" where
  "kwarg kw k = (case map_of kw k of None \<Rightarrow> Some [] | Some v \<Rightarrow> v)"

definition TenableInfoMetadata_init ::
  "(string \<times> string option) list \<Rightarrow> py_error + TenableInfoMetadata" where
  "TenableInfoMetadata_init kw =
     (if list_all (\<lambda>k. k \<in> set metadata_params) (map fst kw) then
        Inr \<lparr> os = kwarg kw ''os'',
              md5 = kwarg kw ''md5'',
              arch = kwarg kw ''arch'',
              sha256 = kwarg kw ''sha256'',
              os_type = kwarg kw ''os_type'',
              product = kwarg kw ''product'',
              version = kwarg kw ''version'',
              product_type = kwarg kw ''product_type'',
              release_date = kwarg kw ''release_date'',
              product_notes = kwarg kw ''product_notes'',
              product_release_date = kwarg kw ''product_release_date'' \<rparr>
      else Inl TypeError)"

section \<open>Artifacts\<close>

text \<open>\<open>str(i)\<close> for an integer, as \<open>str.format\<close> writes it into the download URI.\<close>

fun digits :: "nat \<Rightarrow> string" where
  "digits n =
     (if n < 10 then [''0123456789'' ! n]
      else digits (n div 10) @ [''0123456789'' ! (n mod 10)])"

definition str_int :: "int \<Rightarrow> string" where
  "str_int i = (if i < 0 then CHR ''-'' # digits (nat (- i)) else digits (nat i))"

definition TENABLE_DOWNLOAD_API_URI :: "int option \<Rightarrow> string" where
  "TENABLE_DOWNLOAD_API_URI product_id =
     ''https://www.tenable.com/downloads/api/v1/public/pages/nessus-agents/downloads/'' @
     (case product_id of None \<Rightarrow> ''None'' | Some i \<Rightarrow> str_int i) @
     ''/download?i_agree_to_tenable_license_agreement=true''"

text \<open>
  The keyword arguments of \<open>TenableDownloadInfo.__init__\<close>, typed as its signature
  types them. \<open>kw_meta_data\<close> is the raw \<open>meta_data\<close> dictionary of the catalog entry
  (its items), or \<open>None\<close> when the entry has none.
\<close>

record download_kwargs =
  kw_id :: "int option"
  kw_file :: string
  kw_name :: string
  kw_size :: "int option"
  kw_description :: string
  kw_sort_order :: string
  kw_created_at :: string
  kw_updated_at :: string
  kw_page_id :: "int option"
  kw_publish :: "bool option"
  kw_required_auth :: "bool option"
  kw_disabled :: "bool option"
  kw_type :: string
  kw_meta_data :: "(string \<times> string option) list option"

text \<open>The defaults of the signature.\<close>

definition default_kwargs :: download_kwargs where
  "default_kwargs =
     \<lparr> kw_id = None, kw_file = [], kw_name = [], kw_size = None, kw_description = [],
       kw_sort_order = [], kw_created_at = [], kw_updated_at = [], kw_page_id = None,
       kw_publish = None, kw_required_auth = None, kw_disabled = None, kw_type = [],
       kw_meta_data = None \<rparr>"

text \<open>
  \<open>TenableDownloadInfo\<close>, the constructed object. The attributes \<open>id\<close>, \<open>file\<close>, \<open>size\<close> and
  \<open>type\<close> are \<open>id_attr\<close>, \<open>file_attr\<close>, \<open>size_attr\<close> and \<open>type_attr\<close> here.
\<close>

record TenableDownloadInfo =
  id_attr :: "int option"
  file_attr :: string
  name :: string
  size_attr :: "int option"
  description :: string
  sort_order :: string
  created_at :: string
  updated_at :: string
  page_id :: "int option"
  publish :: "bool option"
  required_auth :: "bool option"
  disabled :: "bool option"
  type_attr :: string
  meta_data :: TenableInfoMetadata
  download_uri :: string

text \<open>
  The part of the constructor that infers metadata from the file name (lines 149 to 168
  of the source), on the metadata object just built. A name that ends in \<open>dmg\<close> or in
  \<open>tar.gz\<close> has its \<open>os_type\<close> assigned and nothing else is done. Otherwise the name is
  searched for the pattern; when it is found, the \<open>os\<close> group is split once, and
  \<open>os\<close>, \<open>os_type\<close> and \<open>arch\<close> are assigned where they are \<open>None\<close>.
\<close>

definition infer_os :: "string list \<Rightarrow> TenableInfoMetadata \<Rightarrow> TenableInfoMetadata" where
  "infer_os os_arch m = (if os m = None then m\<lparr>os := Some (os_arch ! 0)\<rparr> else m)"

definition infer_os_type :: "TenableInfoMetadata \<Rightarrow> py_error + TenableInfoMetadata" where
  "infer_os_type m =
     (if os_type m = None then
        (case os m of
           None \<Rightarrow> Inl AttributeError
         | Some o_str \<Rightarrow>
             if startswith (lower o_str) ''win''
             then Inr (m\<lparr>os_type := Some ''windows''\<rparr>)
             else Inr (m\<lparr>os_type := Some ''linux''\<rparr>))
      else Inr m)"

definition infer_arch :: "string list \<Rightarrow> TenableInfoMetadata \<Rightarrow> TenableInfoMetadata" where
  "infer_arch os_arch m =
     (if arch m = None then
        (if length os_arch > 1 then m\<lparr>arch := Some (os_arch ! 1)\<rparr> else m)
      else m)"

definition extract_metadata :: "string \<Rightarrow> TenableInfoMetadata \<Rightarrow> py_error + TenableInfoMetadata" where
  "extract_metadata nm m =
     (if endswith nm ''dmg'' then Inr (m\<lparr>os_type := Some ''darwin''\<rparr>)
      else if endswith nm ''tar.gz'' then Inr (m\<lparr>os_type := Some ''linux''\<rparr>)
      else
        (case re_search name_pattern nm of
           None \<Rightarrow> Inr m
         | Some matches \<Rightarrow>
             (let os_arch = re_split1 (group_text ''os'' matches) in
              case infer_os_type (infer_os os_arch m) of
                Inl e \<Rightarrow> Inl e
              | Inr m' \<Rightarrow> Inr (infer_arch os_arch m'))))"

definition TenableDownloadInfo_init :: "download_kwargs \<Rightarrow> py_error + TenableDownloadInfo" where
  "TenableDownloadInfo_init kw =
     (let md_dict = (case kw_meta_data kw of None \<Rightarrow> [] | Some d \<Rightarrow> d) in
      case TenableInfoMetadata_init md_dict of
        Inl e \<Rightarrow> Inl e
      | Inr m0 \<Rightarrow>
          (case extract_metadata (kw_name kw) m0 of
             Inl e \<Rightarrow> Inl e
           | Inr m \<Rightarrow>
               Inr \<lparr> id_attr = kw_id kw,
                     file_attr = kw_file kw,
                     name = kw_name kw,
                     size_attr = kw_size kw,
                     description = kw_description kw,
                     sort_order = kw_sort_order kw,
                     created_at = kw_created_at kw,
                     updated_at = kw_updated_at kw,
                     page_id = kw_page_id kw,
                     publish = kw_publish kw,
                     required_auth = kw_required_auth kw,
                     disabled = kw_disabled kw,
                     type_attr = kw_type kw,
                     meta_data = m,
                     download_uri = TENABLE_DOWNLOAD_API_URI (kw_id kw) \<rparr>))"

text \<open>
  \<open>is_match\<close>. The body of the \<open>try\<close> raises \<open>AttributeError\<close> when the metadata
  attribute it lower-cases is \<open>None\<close>: \<open>is_equivalent_distro\<close> lower-cases its third
  argument on entry, and \<open>is_equivalent_architecture\<close>, which \<open>and\<close> calls only when
  the distributions are equivalent, its second. The bare \<open>except\<close> turns every
  exception into \<open>False\<close>.
\<close>

definition is_match_try ::
  "TenableDownloadInfo \<Rightarrow> string \<Rightarrow> string \<Rightarrow> string \<Rightarrow> string \<Rightarrow> py_error + bool" where
  "is_match_try d os' major_version arch' os_type' =
     (if lower os_type' = ''darwin'' \<and> endswith (name d) ''dmg'' then Inr True
      else
        (case os (meta_data d) of
           None \<Rightarrow> Inl AttributeError
         | Some distro2 \<Rightarrow>
             if is_equivalent_distro os' major_version distro2 then
               (case arch (meta_data d) of
                  None \<Rightarrow> Inl AttributeError
                | Some arch2 \<Rightarrow> Inr (is_equivalent_architecture arch' arch2))
             else Inr False))"

definition is_match ::
  "TenableDownloadInfo \<Rightarrow> string \<Rightarrow> string \<Rightarrow> string \<Rightarrow> string \<Rightarrow> bool" where
  "is_match d os' major_version arch' os_type' =
     (case is_match_try d os' major_version arch' os_type' of
        Inl e \<Rightarrow> False
      | Inr b \<Rightarrow> b)"

section \<open>Product entries and selection\<close>

record TenableProductInfo =
  product_name :: string
  product_sort_order :: string
  downloads :: "TenableDownloadInfo list"
  release_notes :: string
  product_version :: string

text \<open>
  The list comprehension of the constructor builds the artifacts in catalog order; an
  exception raised for one of them leaves the constructor.
\<close>

fun build_downloads :: "download_kwargs list \<Rightarrow> py_error + TenableDownloadInfo list" where
  "build_downloads [] = Inr []"
| "build_downloads (kw # kws) =
     (case TenableDownloadInfo_init kw of
        Inl e \<Rightarrow> Inl e
      | Inr d \<Rightarrow>
          (case build_downloads kws of
             Inl e \<Rightarrow> Inl e
           | Inr ds \<Rightarrow> Inr (d # ds)))"

definition TenableProductInfo_init ::
  "string \<Rightarrow> string \<Rightarrow> download_kwargs list \<Rightarrow> string \<Rightarrow> string \<Rightarrow>
   py_error + TenableProductInfo" where
  "TenableProductInfo_init pname sorder dls notes ver =
     (case build_downloads dls of
        Inl e \<Rightarrow> Inl e
      | Inr ds \<Rightarrow>
          Inr \<lparr> product_name = pname, product_sort_order = sorder, downloads = ds,
                release_notes = notes, product_version = ver \<rparr>)"

definition list_all_os_and_arch_options ::
  "TenableProductInfo \<Rightarrow> (string option \<times> string option) list" where
  "list_all_os_and_arch_options p =
     map (\<lambda>d. (os (meta_data d), arch (meta_data d))) (downloads p)"

text \<open>
  The \<open>for\<close> loop of \<open>get_download_for\<close>: the first artifact of the list that
  matches, if there is one.
\<close>

fun first_match ::
  "TenableDownloadInfo list \<Rightarrow> string \<Rightarrow> string \<Rightarrow> string \<Rightarrow> string \<Rightarrow>
   TenableDownloadInfo option" where
  "first_match [] os' major_version arch' os_type' = None"
| "first_match (d # ds) os' major_version arch' os_type' =
     (if is_match d os' major_version arch' os_type' then Some d
      else first_match ds os' major_version arch' os_type')"

definition get_download_for ::
  "TenableProductInfo \<Rightarrow> string \<Rightarrow> string \<Rightarrow> string \<Rightarrow> string \<Rightarrow>
   py_error + TenableDownloadInfo" where
  "get_download_for p os' major_version arch' os_type' =
     (case first_match (downloads p) os' major_version arch' os_type' of
        Some d \<Rightarrow> Inr d
      | None \<Rightarrow>
          Inl (ValueError os' major_version arch' os_type'
                 (list_all_os_and_arch_options p)))"

section \<open>The catalog page decoder\<close>

text \<open>
  A decoded JSON document. \<open>JNull\<close> is Python's \<open>None\<close>; \<open>JDict\<close> lists the items
  of a dictionary in insertion order.
\<close>

datatype json =
    JNull
  | JBool bool
  | JNum int
  | JStr string
  | JList "json list"
  | JDict "(string \<times> json) list"

text \<open>
  Indexing a sequence with an integer: a negative index counts from the end, an index
  out of range raises \<open>IndexError\<close>.
\<close>

definition py_index :: "'a list \<Rightarrow> int \<Rightarrow> py_error + 'a" where
  "py_index xs i =
     (if 0 \<le> i \<and> i < int (length xs) then Inr (xs ! nat i)
      else if i < 0 \<and> - int (length xs) \<le> i then Inr (xs ! nat (int (length xs) + i))
      else Inl IndexError)"

text \<open>
  The subscription \<open>v[k]\<close>. A dictionary gives the value of a key it holds and raises
  \<open>KeyError\<close> for any other hashable key, \<open>TypeError\<close> for a list or a dictionary
  used as key. A list and a string are indexed by an integer (a boolean is the integer
  0 or 1) and raise \<open>TypeError\<close> for any other index. \<open>None\<close>, a number and a
  boolean are not subscriptable.
\<close>

fun subscript :: "json \<Rightarrow> json \<Rightarrow> py_error + json" where
  "subscript (JDict kvs) (JStr k) =
     (case map_of kvs k of None \<Rightarrow> Inl KeyError | Some v \<Rightarrow> Inr v)"
| "subscript (JDict kvs) (JList ks) = Inl TypeError"
| "subscript (JDict kvs) (JDict ks) = Inl TypeError"
| "subscript (JDict kvs) k = Inl KeyError"
| "subscript (JList xs) (JNum i) = py_index xs i"
| "subscript (JList xs) (JBool b) = py_index xs (if b then 1 else 0)"
| "subscript (JList xs) k = Inl TypeError"
| "subscript (JStr s) (JNum i) = map_sum id (\<lambda>c. JStr [c]) (py_index s i)"
| "subscript (JStr s) (JBool b) =
     map_sum id (\<lambda>c. JStr [c]) (py_index s (if b then 1 else 0))"
| "subscript (JStr s) k = Inl TypeError"
| "subscript v k = Inl TypeError"

text \<open>
  The values a \<open>for\<close> loop over \<open>v\<close> runs through: the keys of a dictionary, the
  elements of a list, the characters of a string; any other value is not iterable.
\<close>

fun py_iter :: "json \<Rightarrow> py_error + json list" where
  "py_iter (JDict kvs) = Inr (map (\<lambda>kv. JStr (fst kv)) kvs)"
| "py_iter (JList xs) = Inr xs"
| "py_iter (JStr s) = Inr (map (\<lambda>c. JStr [c]) s)"
| "py_iter v = Inl TypeError"

text \<open>
  The events \<open>HTMLParser.feed\<close> reports to the handlers of the subclass, in document
  order. An attribute is a pair of its name and its value (\<open>None\<close> for an attribute
  without one).
\<close>

datatype html_event =
    StartTag string "(string \<times> string option) list"
  | Data string
  | EndTag string

record TenablePageParser =
  find_attrs :: "string \<times> string"
  find_tag :: string
  in_special_script :: bool
  json_data :: string
  decoded_json :: json

text \<open>\<open>TenablePageParser()\<close>, with the default tag and attribute.\<close>

definition TenablePageParser_init :: TenablePageParser where
  "TenablePageParser_init =
     \<lparr> find_attrs = (''id'', ''__NEXT_DATA__''), find_tag = ''script'',
       in_special_script = False, json_data = [], decoded_json = JNull \<rparr>"

definition handle_starttag ::
  "TenablePageParser \<Rightarrow> string \<Rightarrow> (string \<times> string option) list \<Rightarrow> TenablePageParser" where
  "handle_starttag p tag attrs =
     (if tag = find_tag p \<and> (fst (find_attrs p), Some (snd (find_attrs p))) \<in> set attrs
      then p\<lparr>in_special_script := True\<rparr> else p)"

definition handle_data :: "TenablePageParser \<Rightarrow> string \<Rightarrow> TenablePageParser" where
  "handle_data p data =
     (if in_special_script p then p\<lparr>json_data := json_data p @ data\<rparr> else p)"

text \<open>
  \<open>handle_endtag\<close>. \<open>loads\<close> is \<open>json.loads\<close>, with \<open>None\<close> for a
  \<open>JSONDecodeError\<close>: the handler catches it and leaves \<open>decoded_json\<close> as it was.
\<close>

definition handle_endtag ::
  "(string \<Rightarrow> json option) \<Rightarrow> TenablePageParser \<Rightarrow> string \<Rightarrow> TenablePageParser" where
  "handle_endtag loads p tag =
     (if tag = find_tag p \<and> in_special_script p then
        (let p' = p\<lparr>in_special_script := False\<rparr> in
         case loads (json_data p') of
           None \<Rightarrow> p'
         | Some j \<Rightarrow> p'\<lparr>decoded_json := j\<rparr>)
      else p)"

fun feed :: "(string \<Rightarrow> json option) \<Rightarrow> TenablePageParser \<Rightarrow> html_event list \<Rightarrow> TenablePageParser" where
  "feed loads p [] = p"
| "feed loads p (StartTag tag attrs # evs) = feed loads (handle_starttag p tag attrs) evs"
| "feed loads p (Data data # evs) = feed loads (handle_data p data) evs"
| "feed loads p (EndTag tag # evs) = feed loads (handle_endtag loads p tag) evs"

text \<open>
  \<open>get_product_info\<close>, on the events of the page text. \<open>from_dict\<close> stands for the
  call \<open>TenableProductInfo(**product_info_dict)\<close>, which binds the items of a decoded
  dictionary to the parameters of the constructor. \<open>product_info\<close> is the dictionary
  the loop fills, in insertion order; the parser is returned with the result, since
  feeding changes it.
\<close>

fun products_loop ::
  "(json \<Rightarrow> py_error + TenableProductInfo) \<Rightarrow> json \<Rightarrow> json list \<Rightarrow>
   (json \<times> TenableProductInfo) list \<Rightarrow> py_error + (json \<times> TenableProductInfo) list" where
  "products_loop from_dict products [] product_info = Inr product_info"
| "products_loop from_dict products (product_name' # rest) product_info =
     (case subscript products product_name' of
        Inl e \<Rightarrow> Inl e
      | Inr product_info_dict \<Rightarrow>
          (case from_dict product_info_dict of
             Inl e \<Rightarrow> Inl e
           | Inr info \<Rightarrow>
               products_loop from_dict products rest
                 (AList.update product_name' info product_info)))"

definition get_product_info ::
  "(string \<Rightarrow> json option) \<Rightarrow> (json \<Rightarrow> py_error + TenableProductInfo) \<Rightarrow>
   TenablePageParser \<Rightarrow> html_event list \<Rightarrow>
   TenablePageParser \<times> (py_error + (json \<times> TenableProductInfo) list)" where
  "get_product_info loads from_dict p text_events =
     (let p' = (if decoded_json p = JNull then feed loads p text_events else p) in
      (p',
       case subscript (decoded_json p') (JStr ''props'') of
         Inl e \<Rightarrow> Inl e
       | Inr props \<Rightarrow>
           (case subscript props (JStr ''pageProps'') of
              Inl e \<Rightarrow> Inl e
            | Inr page_props \<Rightarrow>
                (case subscript page_props (JStr ''products'') of
                   Inl e \<Rightarrow> Inl e
                 | Inr products \<Rightarrow>
                     (case py_iter products of
                        Inl e \<Rightarrow> Inl e
                      | Inr names \<Rightarrow> products_loop from_dict products names [])))))"

section \<open>An example product entry\<close>

text \<open>
  Three artifacts in catalog order, for \<open>ubuntu1404/amd64\<close>, \<open>ubuntu1404/arm64\<close> and
  \<open>el8/x86_64\<close>, and a macOS disk image. They are used to run the definitions on
  concrete inputs.
\<close>

definition ubuntu_amd64 :: TenableDownloadInfo where
  "ubuntu_amd64 =
     \<lparr> id_attr = Some 22712,
       file_attr = ''NessusAgent-10.6.1-ubuntu1404_amd64.deb'',
       name = ''NessusAgent-10.6.1-ubuntu1404_amd64.deb'',
       size_attr = Some 25513220,
       description = ''Ubuntu 14.04, 16.04, 18.04, 20.04, 22.04 (amd64)'',
       sort_order = [],
       created_at = ''2024-04-05T15:16:46.597Z'',
       updated_at = ''2024-04-05T15:17:25.145Z'',
       page_id = Some 61,
       publish = Some True,
       required_auth = Some False,
       disabled = Some False,
       type_attr = ''download'',
       meta_data =
         \<lparr> os = Some ''ubuntu1404'',
           md5 = Some ''fe9b44c351bc026609158cca3e44f11c'',
           arch = Some ''amd64'',
           sha256 = Some ''0ea2f72a7d3a9e7dfcd59712388136fd15f61c310effb22d5b8d8de44314b141'',
           os_type = Some ''linux'',
           product = Some ''Nessus Agents - 10.6.1'',
           version = Some ''10.6.1'',
           product_type = Some ''default'',
           release_date = Some ''2024-04-04T00:00:00.000Z'',
           product_notes = None,
           product_release_date = Some ''2024-04-05T00:00:00.000Z'' \<rparr>,
       download_uri = TENABLE_DOWNLOAD_API_URI (Some 22712) \<rparr>"

definition ubuntu_arm64 :: TenableDownloadInfo where
  "ubuntu_arm64 =
     ubuntu_amd64
       \<lparr> id_attr := Some 22713,
         file_attr := ''NessusAgent-10.6.1-ubuntu1404_arm64.deb'',
         name := ''NessusAgent-10.6.1-ubuntu1404_arm64.deb'',
         meta_data := (meta_data ubuntu_amd64)\<lparr>arch := Some ''arm64''\<rparr>,
         download_uri := TENABLE_DOWNLOAD_API_URI (Some 22713) \<rparr>"

definition el8_x86_64 :: TenableDownloadInfo where
  "el8_x86_64 =
     ubuntu_amd64
       \<lparr> id_attr := Some 22714,
         file_attr := ''NessusAgent-10.6.1-el8.x86_64.rpm'',
         name := ''NessusAgent-10.6.1-el8.x86_64.rpm'',
         meta_data := (meta_data ubuntu_amd64)\<lparr>os := Some ''el8'', arch := Some ''x86_64''\<rparr>,
         download_uri := TENABLE_DOWNLOAD_API_URI (Some 22714) \<rparr>"

definition macos_dmg :: TenableDownloadInfo where
  "macos_dmg =
     ubuntu_amd64
       \<lparr> id_attr := Some 22715,
         file_attr := ''NessusAgent-10.6.1.dmg'',
         name := ''NessusAgent-10.6.1.dmg'',
         meta_data :=
           (meta_data ubuntu_amd64)\<lparr>os := None, arch := None, os_type := Some ''darwin''\<rparr>,
         download_uri := TENABLE_DOWNLOAD_API_URI (Some 22715) \<rparr>"

definition example_product :: TenableProductInfo where
  "example_product =
     \<lparr> product_name = ''Nessus Agents - 10.6.1'',
       product_sort_order = [],
       downloads = [ubuntu_amd64, ubuntu_arm64, el8_x86_64],
       release_notes = [],
       product_version = ''10.6.1'' \<rparr>"

section \<open>Properties of the equivalence resolver\<close>

lemma startswith_Cons:
  "startswith s (p # ps) = (case s of [] \<Rightarrow> False | x # xs \<Rightarrow> x = p \<and> startswith xs ps)"
  by (cases s) simp_all

lemma contains_Nil: "contains [] s"
  by (induction s) simp_all

lemma lower_CentOS: "lower ''CentOS'' = ''centos''"
  by (simp add: lower_def lower_char_def)

lemma lower_Ubuntu: "lower ''Ubuntu'' = ''ubuntu''"
  by (simp add: lower_def lower_char_def)

lemma lower_el_token: "lower ''el8'' = ''el8''" "lower ''el9'' = ''el9''"
  by (simp_all add: lower_def lower_char_def)

lemma lower_ubuntu2004: "lower ''ubuntu2004'' = ''ubuntu2004''"
  by (simp add: lower_def lower_char_def)

lemma centos_in_el: "''centos'' \<in> set el_aliases"
  by (simp add: el_aliases_def)

lemma ubuntu_not_in_el: "''ubuntu'' \<notin> set el_aliases"
  by (simp add: el_aliases_def)

lemma arch_loop_sym: "arch_loop t a b = arch_loop t b a"
  by (induction t a b rule: arch_loop.induct) auto

text \<open>The alias lists of the other groups share no name with the \<open>el\<close> list.\<close>

lemma el_disjoint:
  "x \<in> set el_aliases \<Longrightarrow>
   x \<notin> set amzn_aliases \<and> x \<notin> set ubuntu_aliases \<and>
   x \<notin> set debian_aliases \<and> x \<notin> set suse_aliases"
  unfolding el_aliases_def amzn_aliases_def ubuntu_aliases_def debian_aliases_def
    suse_aliases_def
  by auto

lemma distro_loop_el:
  assumes "x \<in> set el_aliases"
  shows "distro_loop distro_equivalences x v t = (startswith t ''el'' \<and> contains v t)"
  using el_disjoint [OF assms] assms
  by (simp add: distro_equivalences_def)

lemma distro_loop_not_el:
  assumes "x \<notin> set el_aliases"
  shows "distro_loop distro_equivalences x v t = distro_loop distro_equivalences x v' t"
  using assms
  by (auto simp add: distro_equivalences_def startswith_Cons split: list.splits)

lemma distro_loop_ubuntu:
  "distro_loop distro_equivalences ''ubuntu'' v ''ubuntu2004''"
  by (simp add: distro_equivalences_def el_aliases_def amzn_aliases_def ubuntu_aliases_def)

text \<open>
  Claim C7. \<open>is_equivalent_architecture\<close> is symmetric: for all architecture strings
  \<open>a\<close> and \<open>b\<close>, comparing \<open>a\<close> with \<open>b\<close> gives the same result as comparing \<open>b\<close>
  with \<open>a\<close>.
\<close>

theorem architecture_symmetric:
  "is_equivalent_architecture a b = is_equivalent_architecture b a"
  unfolding is_equivalent_architecture_def by (rule arch_loop_sym)

text \<open>
  Claim C3. The major version is checked for the enterprise-Linux group and for no
  other: \<open>CentOS\<close> with version 8 is equivalent to \<open>el8\<close>, with version 7 it is not,
  and \<open>Ubuntu\<close> is equivalent to \<open>ubuntu2004\<close> whatever the version string. In
  general, for a reported name that the \<open>el\<close> list holds (once lower-cased) the result
  is exactly: the lower-cased token starts with \<open>el\<close> and the version occurs in it; for
  every other reported name the result does not depend on the version.
\<close>

theorem distro_version_gate:
  "is_equivalent_distro ''CentOS'' ''8'' ''el8'' \<and>
   \<not> is_equivalent_distro ''CentOS'' ''7'' ''el8'' \<and>
   (\<forall>v. is_equivalent_distro ''Ubuntu'' v ''ubuntu2004'') \<and>
   (lower d1 \<in> set el_aliases \<longrightarrow>
      is_equivalent_distro d1 v1 t1 = (startswith (lower t1) ''el'' \<and> contains v1 (lower t1))) \<and>
   (lower d2 \<notin> set el_aliases \<longrightarrow>
      is_equivalent_distro d2 v2 t2 = is_equivalent_distro d2 v2' t2)"
proof -
  have a: "is_equivalent_distro ''CentOS'' ''8'' ''el8''"
    unfolding is_equivalent_distro_def lower_CentOS lower_el_token
    by (simp add: distro_loop_el [OF centos_in_el])
  have b: "\<not> is_equivalent_distro ''CentOS'' ''7'' ''el8''"
    unfolding is_equivalent_distro_def lower_CentOS lower_el_token
    by (simp add: distro_loop_el [OF centos_in_el])
  have c: "is_equivalent_distro ''Ubuntu'' v ''ubuntu2004''" for v
    unfolding is_equivalent_distro_def lower_Ubuntu lower_ubuntu2004
    by (rule distro_loop_ubuntu)
  have d: "lower d1 \<in> set el_aliases \<longrightarrow>
      is_equivalent_distro d1 v1 t1 = (startswith (lower t1) ''el'' \<and> contains v1 (lower t1))"
    unfolding is_equivalent_distro_def by (simp add: distro_loop_el)
  have e: "lower d2 \<notin> set el_aliases \<longrightarrow>
      is_equivalent_distro d2 v2 t2 = is_equivalent_distro d2 v2' t2"
    unfolding is_equivalent_distro_def using distro_loop_not_el by blast
  from a b c d e show ?thesis by blast
qed

theorem distro_version_gate_witness:
  "lower ''CentOS'' \<in> set el_aliases \<and>
   lower ''Ubuntu'' \<notin> set el_aliases \<and>
   is_equivalent_distro ''CentOS'' ''8'' ''el8'' \<and>
   \<not> is_equivalent_distro ''CentOS'' ''7'' ''el8'' \<and>
   is_equivalent_distro ''CentOS'' ''9'' ''el9'' \<and>
   is_equivalent_distro ''Ubuntu'' ''20'' ''ubuntu2004'' =
     is_equivalent_distro ''Ubuntu'' ''22'' ''ubuntu2004''"
  using distro_version_gate [of "''CentOS''" "''9''" "''el9''" "''Ubuntu''" "''20''"
      "''ubuntu2004''" "''22''"]
  by (simp add: lower_CentOS lower_Ubuntu lower_el_token centos_in_el ubuntu_not_in_el)

text \<open>
  Claim C9. The reported names \<open>OpenEuler\<close> and \<open>openEuler\<close> are never found
  equivalent to any token, for any version, although \<open>openEuler\<close> is an alias of the
  \<open>el\<close> list; the same holds for \<open>SteamOS\<close> and the \<open>ubuntu\<close> list. The reported
  name is lower-cased before it is looked up, and the two aliases are written with an
  upper-case letter.
\<close>

theorem mixed_case_alias_never_matches:
  "''openEuler'' \<in> set el_aliases \<and> ''steamOS'' \<in> set ubuntu_aliases \<and>
   \<not> is_equivalent_distro ''OpenEuler'' v t \<and>
   \<not> is_equivalent_distro ''openEuler'' v t \<and>
   \<not> is_equivalent_distro ''SteamOS'' v t \<and>
   \<not> is_equivalent_distro ''steamOS'' v t \<and>
   \<not> is_equivalent_distro ''openEuler'' ''8'' ''el8'' \<and>
   \<not> is_equivalent_distro ''SteamOS'' ''20'' ''ubuntu2004''"
  by (simp add: is_equivalent_distro_def distro_equivalences_def el_aliases_def
      amzn_aliases_def ubuntu_aliases_def debian_aliases_def suse_aliases_def
      lower_def lower_char_def)

text \<open>
  Claim C10. With the empty major version, the reported name \<open>openEuler\<close> is not
  found equivalent to the token \<open>el8\<close>, although \<open>openEuler\<close> is an alias of the
  \<open>el\<close> list and \<open>el8\<close> starts with \<open>el\<close>: the lower-cased name \<open>openeuler\<close> is
  looked up in a list that spells the alias with an upper-case letter, so the version
  check is never reached.
\<close>

theorem empty_version_openEuler_not_matched:
  "''openEuler'' \<in> set el_aliases \<and> startswith ''el8'' ''el'' \<and>
   \<not> is_equivalent_distro ''openEuler'' [] ''el8''"
  by (simp add: is_equivalent_distro_def distro_equivalences_def el_aliases_def
      amzn_aliases_def ubuntu_aliases_def debian_aliases_def suse_aliases_def
      lower_def lower_char_def)

text \<open>
  Where the lookup succeeds, the empty major version passes the version check: for
  every reported name whose lower-cased form is an entry of the \<open>el\<close> list and every
  token whose lower-cased form starts with \<open>el\<close>, \<open>is_equivalent_distro\<close> returns
  \<open>True\<close>.
\<close>

theorem empty_version_matches_every_el:
  assumes "lower distro \<in> set el_aliases" and "startswith (lower token) ''el''"
  shows "is_equivalent_distro distro [] token"
  unfolding is_equivalent_distro_def
  using assms by (simp add: distro_loop_el contains_Nil)

theorem empty_version_matches_every_el_witness:
  "lower ''CentOS'' \<in> set el_aliases \<and> startswith (lower ''el9'') ''el'' \<and>
   is_equivalent_distro ''CentOS'' [] ''el9''"
proof -
  have h1: "lower ''CentOS'' \<in> set el_aliases"
    by (simp add: lower_CentOS centos_in_el)
  have h2: "startswith (lower ''el9'') ''el''"
    by (simp add: lower_el_token)
  from h1 h2 empty_version_matches_every_el [OF h1 h2] show ?thesis by simp
qed

section \<open>Properties of matching and selection\<close>

lemma lower_Debian: "lower ''Debian'' = ''debian''"
  by (simp add: lower_def lower_char_def)

lemma lower_Darwin: "lower ''Darwin'' = ''darwin''"
  by (simp add: lower_def lower_char_def)

lemma lower_Windows: "lower ''Windows'' = ''windows''"
  by (simp add: lower_def lower_char_def)

lemma ubuntu_14_ubuntu1404: "is_equivalent_distro ''Ubuntu'' ''14'' ''ubuntu1404''"
  by (simp add: is_equivalent_distro_def distro_equivalences_def el_aliases_def
      amzn_aliases_def ubuntu_aliases_def lower_def lower_char_def)

lemma x86_64_amd64: "is_equivalent_architecture ''x86_64'' ''amd64''"
  by (simp add: is_equivalent_architecture_def arch_equivalences_def lower_def lower_char_def)

lemma windows_no_group: "\<not> is_equivalent_distro ''Windows'' v t"
  by (simp add: is_equivalent_distro_def distro_equivalences_def el_aliases_def
      amzn_aliases_def ubuntu_aliases_def debian_aliases_def suse_aliases_def
      lower_def lower_char_def)

lemma first_match_None:
  "first_match ds o' v a' t' = None \<longleftrightarrow> (\<forall>d\<in>set ds. \<not> is_match d o' v a' t')"
  by (induction ds) simp_all

lemma first_match_Some:
  "first_match ds o' v a' t' = Some d \<longleftrightarrow>
     (\<exists>pre post. ds = pre @ d # post \<and> (\<forall>x\<in>set pre. \<not> is_match x o' v a' t') \<and>
        is_match d o' v a' t')"
proof (induction ds)
  case Nil
  show ?case by simp
next
  case (Cons x xs)
  show ?case
  proof (cases "is_match x o' v a' t'")
    case True
    have "(\<exists>pre post. x # xs = pre @ d # post \<and> (\<forall>y\<in>set pre. \<not> is_match y o' v a' t') \<and>
        is_match d o' v a' t') \<longleftrightarrow> x = d"
    proof
      assume "\<exists>pre post. x # xs = pre @ d # post \<and>
          (\<forall>y\<in>set pre. \<not> is_match y o' v a' t') \<and> is_match d o' v a' t'"
      then obtain pre post where e: "x # xs = pre @ d # post"
        and n: "\<forall>y\<in>set pre. \<not> is_match y o' v a' t'" by blast
      show "x = d"
      proof (cases pre)
        case Nil
        with e show ?thesis by simp
      next
        case (Cons y ys)
        with e have "y = x" by simp
        with Cons n True show ?thesis by simp
      qed
    next
      assume "x = d"
      with True have "x # xs = [] @ d # xs \<and> (\<forall>y\<in>set []. \<not> is_match y o' v a' t') \<and>
          is_match d o' v a' t'" by simp
      then show "\<exists>pre post. x # xs = pre @ d # post \<and>
          (\<forall>y\<in>set pre. \<not> is_match y o' v a' t') \<and> is_match d o' v a' t'" by blast
    qed
    with True show ?thesis by simp
  next
    case False
    have "(\<exists>pre post. x # xs = pre @ d # post \<and> (\<forall>y\<in>set pre. \<not> is_match y o' v a' t') \<and>
        is_match d o' v a' t') \<longleftrightarrow>
      (\<exists>pre post. xs = pre @ d # post \<and> (\<forall>y\<in>set pre. \<not> is_match y o' v a' t') \<and>
        is_match d o' v a' t')"
    proof
      assume "\<exists>pre post. x # xs = pre @ d # post \<and>
          (\<forall>y\<in>set pre. \<not> is_match y o' v a' t') \<and> is_match d o' v a' t'"
      then obtain pre post where e: "x # xs = pre @ d # post"
        and n: "\<forall>y\<in>set pre. \<not> is_match y o' v a' t'"
        and m: "is_match d o' v a' t'" by blast
      show "\<exists>pre post. xs = pre @ d # post \<and>
          (\<forall>y\<in>set pre. \<not> is_match y o' v a' t') \<and> is_match d o' v a' t'"
      proof (cases pre)
        case Nil
        with e m False show ?thesis by simp
      next
        case (Cons y ys)
        with e n have "xs = ys @ d # post \<and> (\<forall>y\<in>set ys. \<not> is_match y o' v a' t')"
          by simp
        with m show ?thesis by blast
      qed
    next
      assume "\<exists>pre post. xs = pre @ d # post \<and>
          (\<forall>y\<in>set pre. \<not> is_match y o' v a' t') \<and> is_match d o' v a' t'"
      then obtain pre post where e: "xs = pre @ d # post"
        and n: "\<forall>y\<in>set pre. \<not> is_match y o' v a' t'"
        and m: "is_match d o' v a' t'" by blast
      from e n False have "x # xs = (x # pre) @ d # post \<and>
          (\<forall>y\<in>set (x # pre). \<not> is_match y o' v a' t')" by simp
      with m show "\<exists>pre post. x # xs = pre @ d # post \<and>
          (\<forall>y\<in>set pre. \<not> is_match y o' v a' t') \<and> is_match d o' v a' t'" by blast
    qed
    with False Cons.IH show ?thesis by simp
  qed
qed

lemma is_match_ubuntu_amd64:
  assumes "os (meta_data d) = Some ''ubuntu1404''" and "arch (meta_data d) = Some ''amd64''"
  shows "is_match d ''Ubuntu'' ''14'' ''x86_64'' ''Debian''"
  using assms
  by (simp add: is_match_def is_match_try_def lower_Debian ubuntu_14_ubuntu1404 x86_64_amd64)

lemma example_meta:
  "os (meta_data ubuntu_amd64) = Some ''ubuntu1404''"
  "arch (meta_data ubuntu_amd64) = Some ''amd64''"
  "os (meta_data ubuntu_arm64) = Some ''ubuntu1404''"
  "arch (meta_data ubuntu_arm64) = Some ''arm64''"
  "os (meta_data el8_x86_64) = Some ''el8''"
  "arch (meta_data el8_x86_64) = Some ''x86_64''"
  by (simp_all add: ubuntu_amd64_def ubuntu_arm64_def el8_x86_64_def)

lemma example_downloads: "downloads example_product = [ubuntu_amd64, ubuntu_arm64, el8_x86_64]"
  by (simp add: example_product_def)

lemma example_no_windows:
  "\<forall>d\<in>set (downloads example_product). \<not> is_match d ''Windows'' ''10'' ''x86_64'' ''Windows''"
  by (simp add: example_downloads is_match_def is_match_try_def lower_Windows example_meta
      windows_no_group)

text \<open>
  Claim C8. An artifact whose name ends in \<open>dmg\<close> matches every query whose OS type is
  \<open>darwin\<close> in any casing, whatever the reported OS, version and architecture and
  whatever the metadata of the artifact.
\<close>

theorem darwin_dmg_always_matches:
  assumes "endswith (name d) ''dmg''" and "lower os_type' = ''darwin''"
  shows "is_match d os' major_version arch' os_type'"
  using assms by (simp add: is_match_def is_match_try_def)

theorem darwin_dmg_always_matches_witness:
  "endswith (name macos_dmg) ''dmg'' \<and> lower ''Darwin'' = ''darwin'' \<and>
   os (meta_data macos_dmg) = None \<and> arch (meta_data macos_dmg) = None \<and>
   is_match macos_dmg ''MacOSX'' ''14'' ''arm64'' ''Darwin''"
proof -
  have h1: "endswith (name macos_dmg) ''dmg''"
    by (simp add: macos_dmg_def endswith_def)
  have h2: "lower ''Darwin'' = ''darwin''"
    by (rule lower_Darwin)
  have h3: "os (meta_data macos_dmg) = None \<and> arch (meta_data macos_dmg) = None"
    by (simp add: macos_dmg_def)
  from h1 h2 h3 darwin_dmg_always_matches [OF h1 h2] show ?thesis by simp
qed

text \<open>
  Claim C2. \<open>get_download_for\<close> returns an artifact \<open>d\<close> exactly when \<open>d\<close> stands in
  the list of the entry, matches the query, and no artifact before it matches: the
  first match in catalog order. For an entry whose artifacts carry the metadata
  \<open>ubuntu1404/amd64\<close>, \<open>ubuntu1404/arm64\<close> and \<open>el8/x86_64\<close> in this order, the query
  \<open>(Ubuntu, 14, x86_64, Debian)\<close> returns the first of them.
\<close>

theorem selection_returns_first_match:
  "(get_download_for p os' major_version arch' os_type' = Inr d \<longleftrightarrow>
      (\<exists>pre post. downloads p = pre @ d # post \<and>
         (\<forall>x\<in>set pre. \<not> is_match x os' major_version arch' os_type') \<and>
         is_match d os' major_version arch' os_type')) \<and>
   (downloads q = [d1, d2, d3] \<and>
    os (meta_data d1) = Some ''ubuntu1404'' \<and> arch (meta_data d1) = Some ''amd64'' \<and>
    os (meta_data d2) = Some ''ubuntu1404'' \<and> arch (meta_data d2) = Some ''arm64'' \<and>
    os (meta_data d3) = Some ''el8'' \<and> arch (meta_data d3) = Some ''x86_64'' \<longrightarrow>
    get_download_for q ''Ubuntu'' ''14'' ''x86_64'' ''Debian'' = Inr d1)"
proof -
  have a: "get_download_for p os' major_version arch' os_type' = Inr d \<longleftrightarrow>
      (\<exists>pre post. downloads p = pre @ d # post \<and>
         (\<forall>x\<in>set pre. \<not> is_match x os' major_version arch' os_type') \<and>
         is_match d os' major_version arch' os_type')"
    unfolding first_match_Some [symmetric]
    by (simp add: get_download_for_def split: option.split)
  have b: "get_download_for q ''Ubuntu'' ''14'' ''x86_64'' ''Debian'' = Inr d1"
    if "downloads q = [d1, d2, d3]" and "os (meta_data d1) = Some ''ubuntu1404''"
      and "arch (meta_data d1) = Some ''amd64''"
    using that is_match_ubuntu_amd64 [of d1] by (simp add: get_download_for_def)
  from a b show ?thesis by blast
qed

theorem selection_returns_first_match_witness:
  "downloads example_product = [ubuntu_amd64, ubuntu_arm64, el8_x86_64] \<and>
   os (meta_data ubuntu_amd64) = Some ''ubuntu1404'' \<and>
   arch (meta_data ubuntu_amd64) = Some ''amd64'' \<and>
   os (meta_data ubuntu_arm64) = Some ''ubuntu1404'' \<and>
   arch (meta_data ubuntu_arm64) = Some ''arm64'' \<and>
   os (meta_data el8_x86_64) = Some ''el8'' \<and>
   arch (meta_data el8_x86_64) = Some ''x86_64'' \<and>
   get_download_for example_product ''Ubuntu'' ''14'' ''x86_64'' ''Debian'' = Inr ubuntu_amd64 \<and>
   (\<exists>pre post. downloads example_product = pre @ ubuntu_amd64 # post \<and>
      (\<forall>x\<in>set pre. \<not> is_match x ''Ubuntu'' ''14'' ''x86_64'' ''Debian'') \<and>
      is_match ubuntu_amd64 ''Ubuntu'' ''14'' ''x86_64'' ''Debian'')"
proof -
  note t = selection_returns_first_match [of example_product "''Ubuntu''" "''14''" "''x86_64''"
      "''Debian''" ubuntu_amd64 example_product ubuntu_amd64 ubuntu_arm64 el8_x86_64]
  from t have r: "get_download_for example_product ''Ubuntu'' ''14'' ''x86_64'' ''Debian'' =
      Inr ubuntu_amd64"
    by (simp add: example_downloads example_meta)
  with t have "\<exists>pre post. downloads example_product = pre @ ubuntu_amd64 # post \<and>
      (\<forall>x\<in>set pre. \<not> is_match x ''Ubuntu'' ''14'' ''x86_64'' ''Debian'') \<and>
      is_match ubuntu_amd64 ''Ubuntu'' ''14'' ''x86_64'' ''Debian''"
    by blast
  with r show ?thesis by (simp add: example_downloads example_meta)
qed

text \<open>
  Claim C4. When no artifact of the entry matches the query, \<open>get_download_for\<close>
  raises: its result is the \<open>ValueError\<close> that carries the query and
  \<open>list_all_os_and_arch_options\<close>, the \<open>(os, arch)\<close> pair of every artifact of the
  entry in catalog order, so the list is as long as the artifact list.
\<close>

theorem no_match_reports_all_options:
  assumes "\<forall>d\<in>set (downloads p). \<not> is_match d os' major_version arch' os_type'"
  shows "get_download_for p os' major_version arch' os_type' =
           Inl (ValueError os' major_version arch' os_type' (list_all_os_and_arch_options p)) \<and>
         list_all_os_and_arch_options p =
           map (\<lambda>d. (os (meta_data d), arch (meta_data d))) (downloads p) \<and>
         length (list_all_os_and_arch_options p) = length (downloads p)"
proof -
  from assms have "first_match (downloads p) os' major_version arch' os_type' = None"
    by (simp add: first_match_None)
  then show ?thesis
    by (simp add: get_download_for_def list_all_os_and_arch_options_def)
qed

theorem no_match_reports_all_options_witness:
  "get_download_for example_product ''Windows'' ''10'' ''x86_64'' ''Windows'' =
     Inl (ValueError ''Windows'' ''10'' ''x86_64'' ''Windows''
            [(Some ''ubuntu1404'', Some ''amd64''), (Some ''ubuntu1404'', Some ''arm64''),
             (Some ''el8'', Some ''x86_64'')]) \<and>
   length (list_all_os_and_arch_options example_product) = 3 \<and>
   length (downloads example_product) = 3"
  using no_match_reports_all_options [OF example_no_windows]
  by (simp add: example_downloads example_meta)

section \<open>Properties of the metadata extractor\<close>

lemma infer_os_not_None: "os (infer_os os_arch m) \<noteq> None"
  by (simp add: infer_os_def)

text \<open>Extraction raises nothing: the \<open>os\<close> it lower-cases has just been assigned.\<close>

lemma extract_metadata_total: "\<exists>m'. extract_metadata nm m = Inr m'"
proof -
  have "\<exists>m'. infer_os_type (infer_os os_arch m) = Inr m'" for os_arch
    using infer_os_not_None [of os_arch m]
    by (auto simp add: infer_os_type_def split: option.split)
  then have "\<exists>m'. (case infer_os_type (infer_os os_arch m) of
                 Inl e \<Rightarrow> Inl e
               | Inr m1 \<Rightarrow> Inr (infer_arch os_arch m1)) = Inr m'" for os_arch
    by (metis sum.simps(6))
  then show ?thesis
    by (simp add: extract_metadata_def Let_def split: option.split)
qed

lemma infer_os_type_fields:
  assumes "infer_os_type m = Inr m'"
  shows "os m' = os m \<and> arch m' = arch m \<and> (os_type m \<noteq> None \<longrightarrow> os_type m' = os_type m) \<and>
         TenableInfoMetadata.more m' = TenableInfoMetadata.more m \<and>
         md5 m' = md5 m \<and> sha256 m' = sha256 m \<and> product m' = product m \<and>
         version m' = version m \<and> product_type m' = product_type m \<and>
         release_date m' = release_date m \<and> product_notes m' = product_notes m \<and>
         product_release_date m' = product_release_date m"
  using assms by (auto simp add: infer_os_type_def split: if_splits option.splits)

lemma infer_os_fields:
  "(os m \<noteq> None \<longrightarrow> os (infer_os os_arch m) = os m) \<and>
   arch (infer_os os_arch m) = arch m \<and> os_type (infer_os os_arch m) = os_type m \<and>
   md5 (infer_os os_arch m) = md5 m \<and> sha256 (infer_os os_arch m) = sha256 m \<and>
   product (infer_os os_arch m) = product m \<and> version (infer_os os_arch m) = version m \<and>
   product_type (infer_os os_arch m) = product_type m \<and>
   release_date (infer_os os_arch m) = release_date m \<and>
   product_notes (infer_os os_arch m) = product_notes m \<and>
   product_release_date (infer_os os_arch m) = product_release_date m"
  by (simp add: infer_os_def)

lemma infer_arch_fields:
  "os (infer_arch os_arch m) = os m \<and>
   (arch m \<noteq> None \<longrightarrow> arch (infer_arch os_arch m) = arch m) \<and>
   os_type (infer_arch os_arch m) = os_type m \<and>
   md5 (infer_arch os_arch m) = md5 m \<and> sha256 (infer_arch os_arch m) = sha256 m \<and>
   product (infer_arch os_arch m) = product m \<and> version (infer_arch os_arch m) = version m \<and>
   product_type (infer_arch os_arch m) = product_type m \<and>
   release_date (infer_arch os_arch m) = release_date m \<and>
   product_notes (infer_arch os_arch m) = product_notes m \<and>
   product_release_date (infer_arch os_arch m) = product_release_date m"
  by (simp add: infer_arch_def)

text \<open>
  What extraction leaves alone: an \<open>os\<close> and an \<open>arch\<close> that are not \<open>None\<close>, an
  \<open>os_type\<close> that is not \<open>None\<close> unless the name ends in \<open>dmg\<close> or \<open>tar.gz\<close>, and
  every other attribute.
\<close>

lemma extract_metadata_keeps:
  assumes "extract_metadata nm m = Inr m'"
  shows "(os m \<noteq> None \<longrightarrow> os m' = os m) \<and>
         (arch m \<noteq> None \<longrightarrow> arch m' = arch m) \<and>
         (os_type m \<noteq> None \<and> \<not> endswith nm ''dmg'' \<and> \<not> endswith nm ''tar.gz'' \<longrightarrow>
            os_type m' = os_type m) \<and>
         md5 m' = md5 m \<and> sha256 m' = sha256 m \<and> product m' = product m \<and>
         version m' = version m \<and> product_type m' = product_type m \<and>
         release_date m' = release_date m \<and> product_notes m' = product_notes m \<and>
         product_release_date m' = product_release_date m"
proof (cases "endswith nm ''dmg'' \<or> endswith nm ''tar.gz''")
  case True
  with assms show ?thesis
    by (auto simp add: extract_metadata_def split: if_splits)
next
  case False
  show ?thesis
  proof (cases "re_search name_pattern nm")
    case None
    with False assms show ?thesis by (simp add: extract_metadata_def)
  next
    case (Some matches)
    define os_arch where "os_arch = re_split1 (group_text ''os'' matches)"
    from False Some assms obtain m1 where
      m1: "infer_os_type (infer_os os_arch m) = Inr m1" and m': "m' = infer_arch os_arch m1"
      by (auto simp add: extract_metadata_def Let_def os_arch_def split: sum.splits)
    from infer_os_type_fields [OF m1] infer_os_fields [of m os_arch]
      infer_arch_fields [of os_arch m1] m'
    show ?thesis by simp
  qed
qed

lemma extract_metadata_dmg:
  "endswith nm ''dmg'' \<Longrightarrow> extract_metadata nm m = Inr (m\<lparr>os_type := Some ''darwin''\<rparr>)"
  by (simp add: extract_metadata_def)

lemma extract_metadata_tar_gz:
  "\<not> endswith nm ''dmg'' \<Longrightarrow> endswith nm ''tar.gz'' \<Longrightarrow>
   extract_metadata nm m = Inr (m\<lparr>os_type := Some ''linux''\<rparr>)"
  by (simp add: extract_metadata_def)

lemma kwarg_explicit: "map_of md k = Some (Some v) \<Longrightarrow> kwarg md k = Some v"
  by (simp add: kwarg_def)

lemma kwarg_absent: "map_of md k = None \<Longrightarrow> kwarg md k = Some []"
  by (simp add: kwarg_def)

lemma kwarg_not_None: "map_of md k \<noteq> Some None \<Longrightarrow> kwarg md k \<noteq> None"
  by (auto simp add: kwarg_def split: option.split)

lemma init_meta_data:
  assumes "TenableDownloadInfo_init kw = Inr d"
  shows "\<exists>m0. TenableInfoMetadata_init (case kw_meta_data kw of None \<Rightarrow> [] | Some x \<Rightarrow> x) = Inr m0 \<and>
           extract_metadata (kw_name kw) m0 = Inr (meta_data d) \<and> name d = kw_name kw"
  using assms
  by (auto simp add: TenableDownloadInfo_init_def Let_def split: sum.splits)

lemma metadata_init_fields:
  assumes "TenableInfoMetadata_init md = Inr m0"
  shows "os m0 = kwarg md ''os'' \<and> arch m0 = kwarg md ''arch'' \<and>
         os_type m0 = kwarg md ''os_type'' \<and> md5 m0 = kwarg md ''md5'' \<and>
         sha256 m0 = kwarg md ''sha256'' \<and> product m0 = kwarg md ''product'' \<and>
         version m0 = kwarg md ''version'' \<and> product_type m0 = kwarg md ''product_type'' \<and>
         release_date m0 = kwarg md ''release_date'' \<and>
         product_notes m0 = kwarg md ''product_notes'' \<and>
         product_release_date m0 = kwarg md ''product_release_date''"
  using assms by (auto simp add: TenableInfoMetadata_init_def split: if_splits)

lemma init_total:
  assumes "list_all (\<lambda>k. k \<in> set metadata_params)
             (map fst (case kw_meta_data kw of None \<Rightarrow> [] | Some x \<Rightarrow> x))"
  shows "\<exists>d. TenableDownloadInfo_init kw = Inr d"
proof -
  obtain m0 where m0: "TenableInfoMetadata_init (case kw_meta_data kw of None \<Rightarrow> [] | Some x \<Rightarrow> x) = Inr m0"
    using assms by (simp add: TenableInfoMetadata_init_def)
  obtain m where "extract_metadata (kw_name kw) m0 = Inr m"
    using extract_metadata_total by blast
  with m0 show ?thesis
    by (simp add: TenableDownloadInfo_init_def Let_def)
qed

lemma deb_name_suffixes:
  "\<not> endswith ''NessusAgent-10.6.1-ubuntu1404_amd64.deb'' ''dmg''"
  "\<not> endswith ''NessusAgent-10.6.1-ubuntu1404_amd64.deb'' ''tar.gz''"
  by (simp_all add: endswith_def)

lemma deb_name_os_arch:
  "map_option (\<lambda>m. re_split1 (group_text ''os'' m))
     (re_search name_pattern ''NessusAgent-10.6.1-ubuntu1404_amd64.deb'') =
   Some [''ubuntu1404'', ''amd64'']"
  by code_simp

text \<open>
  Claim C1. For the name \<open>NessusAgent-10.6.1-ubuntu1404_amd64.deb\<close> and a catalog
  entry without metadata (no \<open>meta_data\<close>, or an empty one), the constructed artifact
  has \<open>os\<close>, \<open>arch\<close> and \<open>os_type\<close> equal to the empty string: the defaults of
  \<open>TenableInfoMetadata\<close> are not \<open>None\<close>, so nothing is inferred from the name.
\<close>

theorem no_metadata_nothing_inferred:
  "map_sum id (\<lambda>d. (os (meta_data d), arch (meta_data d), os_type (meta_data d)))
     (TenableDownloadInfo_init
        (default_kwargs\<lparr>kw_name := ''NessusAgent-10.6.1-ubuntu1404_amd64.deb''\<rparr>)) =
   Inr (Some [], Some [], Some []) \<and>
   map_sum id (\<lambda>d. (os (meta_data d), arch (meta_data d), os_type (meta_data d)))
     (TenableDownloadInfo_init
        (default_kwargs\<lparr>kw_name := ''NessusAgent-10.6.1-ubuntu1404_amd64.deb'',
                         kw_meta_data := Some []\<rparr>)) =
   Inr (Some [], Some [], Some [])"
proof -
  have "map_sum id (\<lambda>d. (os (meta_data d), arch (meta_data d), os_type (meta_data d)))
          (TenableDownloadInfo_init kw) = Inr (Some [], Some [], Some [])"
    if n: "kw_name kw = ''NessusAgent-10.6.1-ubuntu1404_amd64.deb''"
      and e: "(case kw_meta_data kw of None \<Rightarrow> [] | Some x \<Rightarrow> x) = []" for kw
  proof -
    from e obtain d where d: "TenableDownloadInfo_init kw = Inr d"
      using init_total [of kw] by auto
    from init_meta_data [OF d] e obtain m0 where
      m0: "TenableInfoMetadata_init [] = Inr m0"
      and x: "extract_metadata (kw_name kw) m0 = Inr (meta_data d)" by auto
    from metadata_init_fields [OF m0]
    have "os m0 = Some [] \<and> arch m0 = Some [] \<and> os_type m0 = Some []"
      by (simp add: kwarg_def)
    with extract_metadata_keeps [OF x] n deb_name_suffixes d show ?thesis by simp
  qed
  from this [of "default_kwargs\<lparr>kw_name := ''NessusAgent-10.6.1-ubuntu1404_amd64.deb''\<rparr>"]
    this [of "default_kwargs\<lparr>kw_name := ''NessusAgent-10.6.1-ubuntu1404_amd64.deb'',
                             kw_meta_data := Some []\<rparr>"]
  show ?thesis by (simp add: default_kwargs_def)
qed

text \<open>
  The values of claim C1 are inferred when the catalog entry gives \<open>os\<close>, \<open>arch\<close> and
  \<open>os_type\<close> as \<open>null\<close>.
\<close>

lemma null_metadata_inferred:
  "map_sum id (\<lambda>d. (os (meta_data d), arch (meta_data d), os_type (meta_data d)))
     (TenableDownloadInfo_init
        (default_kwargs\<lparr>kw_name := ''NessusAgent-10.6.1-ubuntu1404_amd64.deb'',
                         kw_meta_data :=
                           Some [(''os'', None), (''arch'', None), (''os_type'', None)]\<rparr>)) =
   Inr (Some ''ubuntu1404'', Some ''amd64'', Some ''linux'')"
proof -
  from deb_name_os_arch obtain matches where
    s: "re_search name_pattern ''NessusAgent-10.6.1-ubuntu1404_amd64.deb'' = Some matches"
    and r: "re_split1 (group_text ''os'' matches) = [''ubuntu1404'', ''amd64'']"
    by auto
  show ?thesis
    by (simp add: TenableDownloadInfo_init_def TenableInfoMetadata_init_def default_kwargs_def
        metadata_params_def kwarg_def extract_metadata_def deb_name_suffixes s r Let_def
        infer_os_def infer_os_type_def infer_arch_def lower_def lower_char_def)
qed

text \<open>
  Claim C6, as stated, fails: an \<open>os_type\<close> given explicitly by the catalog entry is
  overwritten when the name ends in \<open>dmg\<close> (it becomes \<open>darwin\<close>) or in \<open>tar.gz\<close>
  (it becomes \<open>linux\<close>).
\<close>

theorem explicit_os_type_overwritten:
  "map_sum id (\<lambda>d. os_type (meta_data d))
     (TenableDownloadInfo_init
        (default_kwargs\<lparr>kw_name := ''NessusAgent-10.6.1.dmg'',
                         kw_meta_data := Some [(''os_type'', Some ''linux'')]\<rparr>)) =
   Inr (Some ''darwin'') \<and>
   map_sum id (\<lambda>d. os_type (meta_data d))
     (TenableDownloadInfo_init
        (default_kwargs\<lparr>kw_name := ''NessusAgent-10.6.1.tar.gz'',
                         kw_meta_data := Some [(''os_type'', Some ''windows'')]\<rparr>)) =
   Inr (Some ''linux'')"
  by (simp add: TenableDownloadInfo_init_def TenableInfoMetadata_init_def default_kwargs_def
      metadata_params_def kwarg_def extract_metadata_def endswith_def)

text \<open>
  Claim C6, amended. For every artifact that is constructed from a catalog entry with
  metadata \<open>md\<close>: an \<open>os\<close> and an \<open>arch\<close> that \<open>md\<close> gives as strings are the \<open>os\<close> and
  \<open>arch\<close> of the artifact; an \<open>os_type\<close> that \<open>md\<close> gives as a string is the
  \<open>os_type\<close> of the artifact when the name ends neither in \<open>dmg\<close> nor in \<open>tar.gz\<close>;
  for a name that ends in \<open>dmg\<close> the \<open>os_type\<close> is \<open>darwin\<close> and for one that ends in
  \<open>tar.gz\<close> (and not in \<open>dmg\<close>) it is \<open>linux\<close>, whatever \<open>md\<close> gives; every other
  attribute of the metadata is what the constructor of \<open>TenableInfoMetadata\<close> made
  of \<open>md\<close>.
\<close>

theorem explicit_metadata_kept:
  assumes "TenableDownloadInfo_init kw = Inr d" and "kw_meta_data kw = Some md"
  shows "(map_of md ''os'' = Some (Some v1) \<longrightarrow> os (meta_data d) = Some v1) \<and>
         (map_of md ''arch'' = Some (Some v2) \<longrightarrow> arch (meta_data d) = Some v2) \<and>
         (map_of md ''os_type'' = Some (Some v3) \<and> \<not> endswith (kw_name kw) ''dmg'' \<and>
            \<not> endswith (kw_name kw) ''tar.gz'' \<longrightarrow> os_type (meta_data d) = Some v3) \<and>
         (endswith (kw_name kw) ''dmg'' \<longrightarrow> os_type (meta_data d) = Some ''darwin'') \<and>
         (\<not> endswith (kw_name kw) ''dmg'' \<and> endswith (kw_name kw) ''tar.gz'' \<longrightarrow>
            os_type (meta_data d) = Some ''linux'') \<and>
         md5 (meta_data d) = kwarg md ''md5'' \<and>
         sha256 (meta_data d) = kwarg md ''sha256'' \<and>
         product (meta_data d) = kwarg md ''product'' \<and>
         version (meta_data d) = kwarg md ''version'' \<and>
         product_type (meta_data d) = kwarg md ''product_type'' \<and>
         release_date (meta_data d) = kwarg md ''release_date'' \<and>
         product_notes (meta_data d) = kwarg md ''product_notes'' \<and>
         product_release_date (meta_data d) = kwarg md ''product_release_date''"
proof -
  from init_meta_data [OF assms(1)] assms(2) obtain m0 where
    m0: "TenableInfoMetadata_init md = Inr m0"
    and x: "extract_metadata (kw_name kw) m0 = Inr (meta_data d)" by auto
  note f = metadata_init_fields [OF m0]
  note k = extract_metadata_keeps [OF x]
  have a: "map_of md ''os'' = Some (Some v1) \<longrightarrow> os (meta_data d) = Some v1"
    using f k by (simp add: kwarg_def)
  have b: "map_of md ''arch'' = Some (Some v2) \<longrightarrow> arch (meta_data d) = Some v2"
    using f k by (simp add: kwarg_def)
  have c: "map_of md ''os_type'' = Some (Some v3) \<and> \<not> endswith (kw_name kw) ''dmg'' \<and>
            \<not> endswith (kw_name kw) ''tar.gz'' \<longrightarrow> os_type (meta_data d) = Some v3"
    using f k by (simp add: kwarg_def)
  have e: "endswith (kw_name kw) ''dmg'' \<longrightarrow> os_type (meta_data d) = Some ''darwin''"
    using x extract_metadata_dmg [of "kw_name kw" m0] by auto
  have g: "\<not> endswith (kw_name kw) ''dmg'' \<and> endswith (kw_name kw) ''tar.gz'' \<longrightarrow>
            os_type (meta_data d) = Some ''linux''"
    using x extract_metadata_tar_gz [of "kw_name kw" m0] by auto
  from a b c e g f k show ?thesis by simp
qed

theorem explicit_metadata_kept_witness:
  "\<exists>d. TenableDownloadInfo_init
          (default_kwargs\<lparr>kw_name := ''NessusAgent-10.6.1-ubuntu1404_amd64.deb'',
                           kw_meta_data :=
                             Some [(''os'', Some ''debian''), (''arch'', Some ''i386''),
                                   (''os_type'', Some ''windows'')]\<rparr>) = Inr d \<and>
        os (meta_data d) = Some ''debian'' \<and> arch (meta_data d) = Some ''i386'' \<and>
        os_type (meta_data d) = Some ''windows''"
proof -
  define kw where "kw = default_kwargs\<lparr>kw_name := ''NessusAgent-10.6.1-ubuntu1404_amd64.deb'',
      kw_meta_data := Some [(''os'', Some ''debian''), (''arch'', Some ''i386''),
                            (''os_type'', Some ''windows'')]\<rparr>"
  have md: "kw_meta_data kw = Some [(''os'', Some ''debian''), (''arch'', Some ''i386''),
                            (''os_type'', Some ''windows'')]"
    by (simp add: kw_def)
  have nm: "kw_name kw = ''NessusAgent-10.6.1-ubuntu1404_amd64.deb''"
    by (simp add: kw_def)
  obtain d where d: "TenableDownloadInfo_init kw = Inr d"
    using init_total [of kw] by (auto simp add: md metadata_params_def)
  from explicit_metadata_kept [OF d md, of "''debian''" "''i386''" "''windows''"]
  have "os (meta_data d) = Some ''debian'' \<and> arch (meta_data d) = Some ''i386'' \<and>
        os_type (meta_data d) = Some ''windows''"
    by (simp add: nm deb_name_suffixes)
  with d show ?thesis unfolding kw_def by blast
qed

section \<open>Properties of the page decoder\<close>

lemma no_decoded_json_raises:
  assumes "decoded_json p = JNull" and "decoded_json (feed loads p evs) = JNull"
  shows "snd (get_product_info loads from_dict p evs) = Inl TypeError"
  using assms by (simp add: get_product_info_def)

text \<open>
  Claim C5. For a page whose marked script element holds text that \<open>json.loads\<close>
  rejects, \<open>get_product_info\<close> on a fresh parser raises \<open>TypeError\<close>: the decode
  error is caught and \<open>decoded_json\<close> stays \<open>None\<close>, which is then subscripted.
\<close>

theorem malformed_json_raises_TypeError:
  assumes "loads data = None"
  shows "snd (get_product_info loads from_dict TenablePageParser_init
                [StartTag ''script'' [(''id'', Some ''__NEXT_DATA__'')], Data data,
                 EndTag ''script'']) = Inl TypeError"
proof (rule no_decoded_json_raises)
  show "decoded_json TenablePageParser_init = JNull"
    by (simp add: TenablePageParser_init_def)
  show "decoded_json (feed loads TenablePageParser_init
          [StartTag ''script'' [(''id'', Some ''__NEXT_DATA__'')], Data data,
           EndTag ''script'']) = JNull"
    using assms
    by (simp add: TenablePageParser_init_def handle_starttag_def handle_data_def
        handle_endtag_def)
qed

theorem malformed_json_raises_TypeError_witness:
  "(\<lambda>s. None :: json option) ''{not json'' = None \<and>
   snd (get_product_info (\<lambda>s. None) (\<lambda>j. Inl TypeError) TenablePageParser_init
          [StartTag ''script'' [(''id'', Some ''__NEXT_DATA__'')], Data ''{not json'',
           EndTag ''script'']) = Inl TypeError"
  using malformed_json_raises_TypeError [of "\<lambda>s. None" "''{not json''" "\<lambda>j. Inl TypeError"]
  by simp

end
